theory Spec2Isabelle
  imports Main "HOL-Library.Word"
begin

unbundle bit_operations_syntax

section \<open>The MCS layer of protocol/t125/mcs.go\<close>

text \<open>
  A shallow embedding of \<^verbatim>\<open>src/protocol/t125/mcs.go\<close>. Byte buffers are lists of
  8-bit words; Go's \<^verbatim>\<open>uint8\<close> and \<^verbatim>\<open>uint16\<close> are \<open>8 word\<close> and \<open>16 word\<close>, Go's
  \<^verbatim>\<open>int\<close> is \<open>int\<close> (no arithmetic of the file can overflow it before an index check
  fails). A writer that appends to a \<^verbatim>\<open>bytes.Buffer\<close> is modelled by the bytes it appends.
\<close>

type_synonym byte = "8 word"
type_synonym bytes = "byte list"

subsection \<open>Constants\<close>

definition MCS_TYPE_CONNECT_INITIAL :: "8 word" where
  "MCS_TYPE_CONNECT_INITIAL = 0x65"

definition MCS_TYPE_CONNECT_RESPONSE :: "8 word" where
  "MCS_TYPE_CONNECT_RESPONSE = 0x66"

definition ERECT_DOMAIN_REQUEST :: "16 word" where
  "ERECT_DOMAIN_REQUEST = 1"

definition DISCONNECT_PROVIDER_ULTIMATUM :: "16 word" where
  "DISCONNECT_PROVIDER_ULTIMATUM = 8"

definition ATTACH_USER_REQUEST :: "16 word" where
  "ATTACH_USER_REQUEST = 10"

definition ATTACH_USER_CONFIRM :: "16 word" where
  "ATTACH_USER_CONFIRM = 11"

definition CHANNEL_JOIN_REQUEST :: "16 word" where
  "CHANNEL_JOIN_REQUEST = 14"

definition CHANNEL_JOIN_CONFIRM :: "16 word" where
  "CHANNEL_JOIN_CONFIRM = 15"

definition SEND_DATA_REQUEST :: "16 word" where
  "SEND_DATA_REQUEST = 25"

definition SEND_DATA_INDICATION :: "16 word" where
  "SEND_DATA_INDICATION = 26"

definition MCS_GLOBAL_CHANNEL :: "16 word" where
  "MCS_GLOBAL_CHANNEL = 1003"

definition MCS_USERCHANNEL_BASE :: "16 word" where
  "MCS_USERCHANNEL_BASE = 1001"

definition domain_pdu_kinds :: "16 word list" where
  "domain_pdu_kinds =
     [ERECT_DOMAIN_REQUEST, DISCONNECT_PROVIDER_ULTIMATUM, ATTACH_USER_REQUEST,
      ATTACH_USER_CONFIRM, CHANNEL_JOIN_REQUEST, CHANNEL_JOIN_CONFIRM,
      SEND_DATA_REQUEST, SEND_DATA_INDICATION]"

subsection \<open>The one-byte PDU header\<close>

text \<open>
  Modelled from the spec: \<^verbatim>\<open>core.WriteUInt8\<close> and \<^verbatim>\<open>core.ReadUInt8\<close> (package core is not
  part of the given sources) write and read one byte; reading from an exhausted reader
  is an error.
\<close>

datatype io_error = EOF

definition WriteUInt8 :: "8 word \<Rightarrow> bytes" where
  "WriteUInt8 b = [b]"

fun ReadUInt8 :: "bytes \<Rightarrow> io_error + (8 word \<times> bytes)" where
  "ReadUInt8 [] = Inl EOF"
| "ReadUInt8 (b # r) = Inr (b, r)"

text \<open>
  \<^verbatim>\<open>core.WriteUInt8((uint8(mcsPdu)<<2)|options, w)\<close>: the conversion to \<^verbatim>\<open>uint8\<close>
  truncates the 16-bit opcode, the shift drops the two top bits.
\<close>

definition writeMCSPDUHeader :: "16 word \<Rightarrow> 8 word \<Rightarrow> bytes" where
  "writeMCSPDUHeader mcsPdu options =
     WriteUInt8 (push_bit 2 (ucast mcsPdu :: 8 word) OR options)"

definition readMCSPDUHeader :: "8 word \<Rightarrow> 16 word \<Rightarrow> bool" where
  "readMCSPDUHeader options mcsPdu \<longleftrightarrow> drop_bit 2 options = (ucast mcsPdu :: 8 word)"

text \<open>
  Modelled from the spec: package per is not part of the given sources. The spec gives the
  Attach User Confirm body as "header byte + PER enumerated(result) + PER 16-bit
  integer(assigned id)", integers big-endian: \<^verbatim>\<open>per.ReadEnumerates\<close> reads one byte,
  \<^verbatim>\<open>per.ReadInteger16\<close> reads two bytes, most significant first. A reader that runs out
  of input returns an error.
\<close>

fun ReadEnumerates :: "bytes \<Rightarrow> io_error + (8 word \<times> bytes)" where
  "ReadEnumerates [] = Inl EOF"
| "ReadEnumerates (b # r) = Inr (b, r)"

fun ReadInteger16 :: "bytes \<Rightarrow> io_error + (16 word \<times> bytes)" where
  "ReadInteger16 (hi # lo # r) = Inr (push_bit 8 (ucast hi) OR ucast lo, r)"
| "ReadInteger16 _ = Inl EOF"

subsection \<open>Domain parameters and the connect messages\<close>

record DomainParameters =
  MaxChannelIds :: int
  MaxUserIds :: int
  MaxTokenIds :: int
  NumPriorities :: int
  MinThoughput :: int
  MaxHeight :: int
  MaxMCSPDUsize :: int
  ProtocolVersion :: int

definition NewDomainParameters ::
  "int \<Rightarrow> int \<Rightarrow> int \<Rightarrow> int \<Rightarrow> int \<Rightarrow> int \<Rightarrow> int \<Rightarrow> int \<Rightarrow> DomainParameters" where
  "NewDomainParameters maxChannelIds maxUserIds maxTokenIds numPriorities minThoughput
       maxHeight maxMCSPDUsize protocolVersion =
     \<lparr>MaxChannelIds = maxChannelIds, MaxUserIds = maxUserIds, MaxTokenIds = maxTokenIds,
      NumPriorities = numPriorities, MinThoughput = minThoughput, MaxHeight = maxHeight,
      MaxMCSPDUsize = maxMCSPDUsize, ProtocolVersion = protocolVersion\<rparr>"

text \<open>
  The BER writers of package ber (not part of the given sources) are parameters of the
  model: each field is the function from a writer's arguments to the bytes it appends to
  its \<^verbatim>\<open>io.Writer\<close>. \<^verbatim>\<open>ber.WriteOctetstring\<close> takes the Go string made of the bytes.
\<close>

record ber_codec =
  ber_WriteInteger :: "int \<Rightarrow> bytes"
  ber_WriteOctetstring :: "bytes \<Rightarrow> bytes"
  ber_WriteBoolean :: "bool \<Rightarrow> bytes"
  ber_WriteEncodedDomainParams :: "bytes \<Rightarrow> bytes"
  ber_WriteApplicationTag :: "8 word \<Rightarrow> int \<Rightarrow> bytes"

definition DomainParameters_BER :: "ber_codec \<Rightarrow> DomainParameters \<Rightarrow> bytes" where
  "DomainParameters_BER b d =
     ber_WriteInteger b (MaxChannelIds d) @
     ber_WriteInteger b (MaxUserIds d) @
     ber_WriteInteger b (MaxTokenIds d) @
     ber_WriteInteger b 1 @
     ber_WriteInteger b 0 @
     ber_WriteInteger b 1 @
     ber_WriteInteger b (MaxMCSPDUsize d) @
     ber_WriteInteger b 2"

record ConnectInitial =
  CallingDomainSelector :: bytes
  CalledDomainSelector :: bytes
  UpwardFlag :: bool
  TargetParameters :: DomainParameters
  MinimumParameters :: DomainParameters
  MaximumParameters :: DomainParameters
  UserData :: bytes

definition NewConnectInitial :: "bytes \<Rightarrow> ConnectInitial" where
  "NewConnectInitial userData =
     \<lparr>CallingDomainSelector = [0x1],
      CalledDomainSelector = [0x1],
      UpwardFlag = True,
      TargetParameters = NewDomainParameters 34 2 0 1 0 1 0xffff 2,
      MinimumParameters = NewDomainParameters 1 1 1 1 0 1 0x420 2,
      MaximumParameters = NewDomainParameters 0xffff 0xfc17 0xffff 1 0 1 0xffff 2,
      UserData = userData\<rparr>"

definition ConnectInitial_BER :: "ber_codec \<Rightarrow> ConnectInitial \<Rightarrow> bytes" where
  "ConnectInitial_BER b c =
     ber_WriteOctetstring b (CallingDomainSelector c) @
     ber_WriteOctetstring b (CalledDomainSelector c) @
     ber_WriteBoolean b (UpwardFlag c) @
     ber_WriteEncodedDomainParams b (DomainParameters_BER b (TargetParameters c)) @
     ber_WriteEncodedDomainParams b (DomainParameters_BER b (MinimumParameters c)) @
     ber_WriteEncodedDomainParams b (DomainParameters_BER b (MaximumParameters c)) @
     ber_WriteOctetstring b (UserData c)"

record ConnectResponse =
  result :: int
  calledConnectId :: int
  domainParameters :: DomainParameters
  userData :: bytes

definition NewConnectResponse :: "bytes \<Rightarrow> ConnectResponse" where
  "NewConnectResponse ud =
     \<lparr>result = 0, calledConnectId = 0,
      domainParameters = NewDomainParameters 22 3 0 1 0 1 0xfff8 2,
      userData = ud\<rparr>"

subsection \<open>Errors, Go interface values and panics\<close>

text \<open>
  A value of type \<^verbatim>\<open>interface{}\<close> carries a dynamic type. The three server block types
  of package gcc are named struct types (the session keeps \<^verbatim>\<open>*gcc.ServerCoreData\<close> and
  its siblings as pointers to them); \<open>PointerTo T\<close> is the Go type \<^verbatim>\<open>*T\<close>, and
  \<open>OtherType n\<close> stands for any further type. The second component of an interface
  value is its (opaque) contents.
\<close>

datatype go_type =
    gcc_ServerSecurityData
  | gcc_ServerCoreData
  | gcc_ServerNetworkData
  | PointerTo go_type
  | OtherType nat

datatype iface = Iface go_type nat

fun dyn_type :: "iface \<Rightarrow> go_type" where
  "dyn_type (Iface t x) = t"

text \<open>
  The type assertion \<^verbatim>\<open>v.(T)\<close> for a non-interface type \<^verbatim>\<open>T\<close>: it yields the value when
  the dynamic type of \<^verbatim>\<open>v\<close> is identical to \<^verbatim>\<open>T\<close>; the one-result form used by the source
  panics otherwise (\<open>None\<close> here).
\<close>

definition type_assert :: "iface \<Rightarrow> go_type \<Rightarrow> iface option" where
  "type_assert v T = (if dyn_type v = T then Some v else None)"

datatype go_panic =
    InterfaceConversion go_type go_type
  | IndexOutOfRange int int

datatype mcs_error =
    ReadError io_error
  | WriteError string
  | BAD_HEADER
  | SERVER_REJECT_USER
  | UnhandledBlock iface bytes

text \<open>
  \<^verbatim>\<open>ReadConnectResponse\<close> ignores its reader and returns a fresh response with empty user
  data and a nil error.
\<close>

definition ReadConnectResponse :: "bytes \<Rightarrow> mcs_error + ConnectResponse" where
  "ReadConnectResponse r = Inr (NewConnectResponse [])"

subsection \<open>The session\<close>

record MCSChannelInfo =
  id_chan :: "16 word"
  name_chan :: string

datatype handler = recvConnectResponse_h | recvAttachUserConfirm_h | recvChannelJoinConfirm_h

datatype event =
    Error_ev mcs_error
  | Connect_ev "16 word" "MCSChannelInfo list"

text \<open>
  Modelled from the spec: the transport (\<^verbatim>\<open>core.Transport\<close>) and the emitter
  (\<^verbatim>\<open>emission.Emitter\<close>) are collaborators outside the given sources: "a duplex
  byte-stream with write(bytes), and a notification source offering one-shot next inbound
  buffer subscriptions", and "a named-event emission sink". Their observable effects are
  kept in the session record: \<open>written\<close> is the list of buffers passed to
  \<^verbatim>\<open>transport.Write\<close>, in order; \<open>emitted\<close> is the list of events passed to \<^verbatim>\<open>Emit\<close>, in
  order; \<open>onceData\<close> holds the handlers registered by \<^verbatim>\<open>transport.Once("data", h)\<close> and
  not yet fired; \<open>onData\<close> counts the persistent (empty) handlers installed by
  \<^verbatim>\<open>transport.On("data", ...)\<close>.
\<close>

record MCS =
  recvOpCode :: "16 word"
  sendOpCode :: "16 word"
  channels :: "MCSChannelInfo list"
  written :: "bytes list"
  emitted :: "event list"
  onceData :: "handler list"
  onData :: nat

record MCSClient = MCS +
  ServerSelectedProtocol :: "32 word"
  serverCoreData :: "iface option"
  serverNetworkData :: "iface option"
  serverSecurityData :: "iface option"
  channelsConnected :: int
  userId :: "16 word"

text \<open>
  The outcome of a handler: it returns, or it panics. Both carry the session as the
  handler left it, since the mutations made before a panic stay.
\<close>

datatype outcome = Returns "MCSClient" | Panics go_panic "MCSClient"

datatype loop_exit = Fallthrough "MCSClient" | Return "MCSClient" | Panic go_panic "MCSClient"

text \<open>
  The remaining collaborators, as parameters: the BER writers, \<^verbatim>\<open>per.WriteInteger\<close>, the
  GCC block codec, and whether \<^verbatim>\<open>transport.Write\<close> reports an error for a buffer.
\<close>

record collab =
  ber :: ber_codec
  per_WriteInteger :: "int \<Rightarrow> bytes"
  ClientCoreData_Block :: "32 word \<Rightarrow> bytes"
  ClientNetworkData_Block :: bytes
  ClientSecurityData_Block :: bytes
  MakeConferenceCreateRequest :: "bytes \<Rightarrow> bytes"
  ReadConferenceCreateResponse :: "bytes \<Rightarrow> iface list"
  Write_error :: "bytes \<Rightarrow> string option"

definition Emit :: "event \<Rightarrow> MCSClient \<Rightarrow> MCSClient" where
  "Emit e c = c\<lparr>emitted := emitted c @ [e]\<rparr>"

definition transport_Write :: "bytes \<Rightarrow> MCSClient \<Rightarrow> MCSClient" where
  "transport_Write b c = c\<lparr>written := written c @ [b]\<rparr>"

definition transport_Once_data :: "handler \<Rightarrow> MCSClient \<Rightarrow> MCSClient" where
  "transport_Once_data h c = c\<lparr>onceData := onceData c @ [h]\<rparr>"

definition transport_On_data :: "MCSClient \<Rightarrow> MCSClient" where
  "transport_On_data c = c\<lparr>onData := onData c + 1\<rparr>"

text \<open>
  \<^verbatim>\<open>NewMCS\<close> seeds the registry with the global channel. (It also forwards the transport's
  "close" and "error" events to the emitter; no handler of the handshake depends on
  that.) \<^verbatim>\<open>NewMCSClient\<close> embeds it; the remaining fields have Go's zero values.
\<close>

definition NewMCS :: "16 word \<Rightarrow> 16 word \<Rightarrow> MCS" where
  "NewMCS recvOp sendOp =
     \<lparr>recvOpCode = recvOp,
      sendOpCode = sendOp,
      channels = [\<lparr>id_chan = MCS_GLOBAL_CHANNEL, name_chan = ''global''\<rparr>],
      written = [], emitted = [], onceData = [], onData = 0\<rparr>"

definition NewMCSClient :: "MCSClient" where
  "NewMCSClient =
     MCS.extend (NewMCS SEND_DATA_INDICATION SEND_DATA_REQUEST)
       (MCSClient.fields 0 None None None 0 0)"

definition connect :: "collab \<Rightarrow> 32 word \<Rightarrow> MCSClient \<Rightarrow> MCSClient" where
  "connect k selectedProtocol c0 =
     (let c = c0\<lparr>ServerSelectedProtocol := selectedProtocol\<rparr>;
          userDataBuff = ClientCoreData_Block k (ServerSelectedProtocol c) @
                         ClientNetworkData_Block k @ ClientSecurityData_Block k;
          ccReq = MakeConferenceCreateRequest k userDataBuff;
          connectInitial = NewConnectInitial ccReq;
          connectInitialBerEncoded = ConnectInitial_BER (ber k) connectInitial;
          dataBuff = ber_WriteApplicationTag (ber k) MCS_TYPE_CONNECT_INITIAL
                       (int (length connectInitialBerEncoded)) @ connectInitialBerEncoded;
          c' = transport_Write dataBuff c
      in case Write_error k dataBuff of
           Some err \<Rightarrow> Emit (Error_ev (WriteError err)) c'
         | None \<Rightarrow> transport_Once_data recvConnectResponse_h c')"

definition sendErectDomainRequest :: "collab \<Rightarrow> MCSClient \<Rightarrow> MCSClient" where
  "sendErectDomainRequest k c =
     transport_Write (writeMCSPDUHeader ERECT_DOMAIN_REQUEST 0 @
                      per_WriteInteger k 0 @ per_WriteInteger k 0) c"

definition sendAttachUserRequest :: "MCSClient \<Rightarrow> MCSClient" where
  "sendAttachUserRequest c = transport_Write (writeMCSPDUHeader ATTACH_USER_REQUEST 0) c"

text \<open>
  The loop of \<^verbatim>\<open>recvConnectResponse\<close> over the server blocks. A \<^verbatim>\<open>case T\<close> of the type
  switch is taken when the dynamic type of \<^verbatim>\<open>v\<close> is \<^verbatim>\<open>T\<close>; its body asserts \<^verbatim>\<open>v.(*T)\<close>.
  The default case emits the error and returns from the handler.
\<close>

fun record_blocks :: "bytes \<Rightarrow> iface list \<Rightarrow> MCSClient \<Rightarrow> loop_exit" where
  "record_blocks ud [] c = Fallthrough c"
| "record_blocks ud (v # vs) c =
     (if dyn_type v = gcc_ServerSecurityData then
        (case type_assert v (PointerTo gcc_ServerSecurityData) of
           None \<Rightarrow> Panic (InterfaceConversion (dyn_type v) (PointerTo gcc_ServerSecurityData)) c
         | Some p \<Rightarrow> record_blocks ud vs (c\<lparr>serverSecurityData := Some p\<rparr>))
      else if dyn_type v = gcc_ServerCoreData then
        (case type_assert v (PointerTo gcc_ServerCoreData) of
           None \<Rightarrow> Panic (InterfaceConversion (dyn_type v) (PointerTo gcc_ServerCoreData)) c
         | Some p \<Rightarrow> record_blocks ud vs (c\<lparr>serverCoreData := Some p\<rparr>))
      else if dyn_type v = gcc_ServerNetworkData then
        (case type_assert v (PointerTo gcc_ServerNetworkData) of
           None \<Rightarrow> Panic (InterfaceConversion (dyn_type v) (PointerTo gcc_ServerNetworkData)) c
         | Some p \<Rightarrow> record_blocks ud vs (c\<lparr>serverNetworkData := Some p\<rparr>))
      else Return (Emit (Error_ev (UnhandledBlock v ud)) c))"

definition recvConnectResponse :: "collab \<Rightarrow> MCSClient \<Rightarrow> bytes \<Rightarrow> outcome" where
  "recvConnectResponse k c s =
     (case ReadConnectResponse s of
        Inl err \<Rightarrow> Returns (Emit (Error_ev err) c)
      | Inr cResp \<Rightarrow>
          (case record_blocks (userData cResp)
                  (ReadConferenceCreateResponse k (userData cResp)) c of
             Panic p c' \<Rightarrow> Panics p c'
           | Return c' \<Rightarrow> Returns c'
           | Fallthrough c' \<Rightarrow>
               Returns (transport_Once_data recvAttachUserConfirm_h
                          (sendAttachUserRequest (sendErectDomainRequest k c')))))"

definition sendChannelJoinRequest :: "16 word \<Rightarrow> MCSClient \<Rightarrow> MCSClient" where
  "sendChannelJoinRequest channelId c = c"

text \<open>
  \<^verbatim>\<open>connectChannels\<close>: the branch for a completed registry has no \<^verbatim>\<open>return\<close>, so the
  indexed read \<^verbatim>\<open>c.channels[c.channelsConnected]\<close> follows in every call; Go panics when
  the index is outside the slice.
\<close>

definition connectChannels :: "MCSClient \<Rightarrow> outcome" where
  "connectChannels c0 =
     (let c = (if channelsConnected c0 = int (length (channels c0))
               then Emit (Connect_ev (userId c0) (channels c0)) (transport_On_data c0)
               else c0)
      in if 0 \<le> channelsConnected c \<and> channelsConnected c < int (length (channels c)) then
           (let c1 = sendChannelJoinRequest
                       (id_chan (channels c ! nat (channelsConnected c))) c;
                c2 = c1\<lparr>channelsConnected := channelsConnected c1 + 1\<rparr>
            in Returns (transport_Once_data recvChannelJoinConfirm_h c2))
         else Panics (IndexOutOfRange (channelsConnected c) (int (length (channels c)))) c)"

definition recvChannelJoinConfirm :: "MCSClient \<Rightarrow> bytes \<Rightarrow> outcome" where
  "recvChannelJoinConfirm c s = connectChannels c"

text \<open>
  \<^verbatim>\<open>recvAttachUserConfirm\<close>. The error of \<^verbatim>\<open>per.ReadInteger16\<close> is discarded by the source
  (\<^verbatim>\<open>userId, _ := ...\<close>); the value is then taken to be Go's zero value. The addition of
  the base is on \<^verbatim>\<open>uint16\<close>.
\<close>

definition recvAttachUserConfirm :: "MCSClient \<Rightarrow> bytes \<Rightarrow> outcome" where
  "recvAttachUserConfirm c s =
     (case ReadUInt8 s of
        Inl err \<Rightarrow> Returns (Emit (Error_ev (ReadError err)) c)
      | Inr (option, r1) \<Rightarrow>
          if \<not> readMCSPDUHeader option ATTACH_USER_CONFIRM
          then Returns (Emit (Error_ev BAD_HEADER) c)
          else
            (case ReadEnumerates r1 of
               Inl err \<Rightarrow> Returns (Emit (Error_ev (ReadError err)) c)
             | Inr (e, r2) \<Rightarrow>
                 if e \<noteq> 0 then Returns (Emit (Error_ev SERVER_REJECT_USER) c)
                 else
                   (let userId0 = (case ReadInteger16 r2 of Inl err \<Rightarrow> 0 | Inr (v, r3) \<Rightarrow> v);
                        userId1 = userId0 + MCS_USERCHANNEL_BASE;
                        c1 = c\<lparr>userId := userId1\<rparr>;
                        c2 = c1\<lparr>channels := channels c1 @
                                  [\<lparr>id_chan = userId1, name_chan = ''user''\<rparr>]\<rparr>
                    in connectChannels c2)))"

subsection \<open>Driving the session by inbound buffers\<close>

fun run_handler :: "collab \<Rightarrow> handler \<Rightarrow> MCSClient \<Rightarrow> bytes \<Rightarrow> outcome" where
  "run_handler k recvConnectResponse_h c s = recvConnectResponse k c s"
| "run_handler k recvAttachUserConfirm_h c s = recvAttachUserConfirm c s"
| "run_handler k recvChannelJoinConfirm_h c s = recvChannelJoinConfirm c s"

text \<open>
  One inbound buffer: the transport fires its "data" event. The one-shot handlers
  registered so far are removed and called with the buffer, in registration order; a
  panic ends the run.
\<close>

fun fire :: "collab \<Rightarrow> bytes \<Rightarrow> handler list \<Rightarrow> MCSClient \<Rightarrow> outcome" where
  "fire k s [] c = Returns c"
| "fire k s (h # hs) c =
     (case run_handler k h c s of
        Returns c' \<Rightarrow> fire k s hs c'
      | Panics p c' \<Rightarrow> Panics p c')"

definition on_data :: "collab \<Rightarrow> bytes \<Rightarrow> MCSClient \<Rightarrow> outcome" where
  "on_data k s c = fire k s (onceData c) (c\<lparr>onceData := []\<rparr>)"

fun deliver :: "collab \<Rightarrow> bytes list \<Rightarrow> MCSClient \<Rightarrow> outcome" where
  "deliver k [] c = Returns c"
| "deliver k (s # ss) c =
     (case on_data k s c of
        Returns c' \<Rightarrow> deliver k ss c'
      | Panics p c' \<Rightarrow> Panics p c')"

text \<open>The session carried by an outcome.\<close>

fun session_of :: "outcome \<Rightarrow> MCSClient" where
  "session_of (Returns c) = c"
| "session_of (Panics p c) = c"

section \<open>Properties\<close>

lemma NewMCSClient_simp:
  "NewMCSClient =
     \<lparr>recvOpCode = SEND_DATA_INDICATION,
      sendOpCode = SEND_DATA_REQUEST,
      channels = [\<lparr>id_chan = MCS_GLOBAL_CHANNEL, name_chan = ''global''\<rparr>],
      written = [], emitted = [], onceData = [], onData = 0,
      ServerSelectedProtocol = 0,
      serverCoreData = None, serverNetworkData = None, serverSecurityData = None,
      channelsConnected = 0,
      userId = 0\<rparr>"
  by (simp add: NewMCSClient_def NewMCS_def MCS.defs MCSClient.defs)

subsection \<open>The PDU header codec\<close>

lemmas opcode_defs = ERECT_DOMAIN_REQUEST_def DISCONNECT_PROVIDER_ULTIMATUM_def
      ATTACH_USER_REQUEST_def ATTACH_USER_CONFIRM_def CHANNEL_JOIN_REQUEST_def
      CHANNEL_JOIN_CONFIRM_def SEND_DATA_REQUEST_def SEND_DATA_INDICATION_def

lemma kinds_cases:
  "op \<in> set domain_pdu_kinds \<Longrightarrow> op \<in> {1, 8, 10, 11, 14, 15, 25, 26}"
  by (simp add: domain_pdu_kinds_def opcode_defs)

lemma options_cases:
  fixes options :: "8 word"
  assumes "options < 4"
  shows "options \<in> {0, 1, 2, 3}"
proof -
  have "unat options < 4" using assms by (simp add: word_less_nat_alt)
  then consider "unat options = 0" | "unat options = 1" | "unat options = 2" | "unat options = 3"
    by linarith
  then show ?thesis
  proof cases
    case 1 then show ?thesis by (simp add: unat_eq_0)
  next
    case 2
    have "options = word_of_nat (unat options)" by simp
    also have "\<dots> = 1" by (simp only: 2) simp
    finally show ?thesis by simp
  next
    case 3
    have "options = word_of_nat (unat options)" by simp
    also have "\<dots> = 2" by (simp only: 3) simp
    finally show ?thesis by simp
  next
    case 4
    have "options = word_of_nat (unat options)" by simp
    also have "\<dots> = 3" by (simp only: 4) simp
    finally show ?thesis by simp
  qed
qed

lemma unat_drop2: "unat (drop_bit 2 (b :: 8 word)) = unat b div 4"
  by (simp add: unat_drop_bit_eq drop_bit_eq_div unat_div)

lemma header_write_read:
  assumes "op \<in> set domain_pdu_kinds" and "options < 4"
  shows "drop_bit 2 (push_bit 2 (ucast op :: 8 word) OR options) = ucast op"
  using kinds_cases [OF assms(1)] options_cases [OF assms(2)] by auto

lemma kinds_unat_ucast:
  assumes "op \<in> set domain_pdu_kinds"
  shows "unat (ucast op :: 8 word) = unat op"
  using kinds_cases [OF assms] by auto

text \<open>
  Claim C9. For every opcode among the enumerated domain-PDU kinds (1, 8, 10, 11, 14, 15,
  25, 26) and every 2-bit options value, the header written by \<open>writeMCSPDUHeader\<close> is
  the single byte \<open>(opcode << 2) | options\<close>, its top six bits are the opcode, and
  \<open>readMCSPDUHeader\<close> accepts it for the same opcode; and every byte whose top six bits
  differ from the expected opcode is refused.
\<close>

theorem header_roundtrip:
  assumes "op \<in> set domain_pdu_kinds"
  shows "(\<forall>options. options < 4 \<longrightarrow>
            writeMCSPDUHeader op options = [push_bit 2 (ucast op) OR options] \<and>
            readMCSPDUHeader (push_bit 2 (ucast op) OR options) op \<and>
            unat (push_bit 2 (ucast op :: 8 word) OR options) div 4 = unat op)
       \<and> (\<forall>b. unat b div 4 \<noteq> unat op \<longrightarrow> \<not> readMCSPDUHeader b op)"
proof (intro conjI allI impI)
  fix options :: "8 word"
  assume lt: "options < 4"
  show "writeMCSPDUHeader op options = [push_bit 2 (ucast op) OR options]"
    by (simp add: writeMCSPDUHeader_def WriteUInt8_def)
  show "readMCSPDUHeader (push_bit 2 (ucast op) OR options) op"
    unfolding readMCSPDUHeader_def by (rule header_write_read [OF assms lt])
  have "unat (drop_bit 2 (push_bit 2 (ucast op :: 8 word) OR options)) = unat op"
    by (simp only: header_write_read [OF assms lt] kinds_unat_ucast [OF assms])
  then show "unat (push_bit 2 (ucast op :: 8 word) OR options) div 4 = unat op"
    by (simp only: unat_drop2)
next
  fix b :: "8 word"
  assume ne: "unat b div 4 \<noteq> unat op"
  show "\<not> readMCSPDUHeader b op"
  proof
    assume "readMCSPDUHeader b op"
    then have "unat (drop_bit 2 b) = unat (ucast op :: 8 word)"
      by (simp add: readMCSPDUHeader_def)
    then have "unat b div 4 = unat op"
      by (simp only: unat_drop2 kinds_unat_ucast [OF assms])
    with ne show False by simp
  qed
qed

text \<open>The theorem at opcode 11 with options 3 (byte 0x2F), and at the byte 0x28 (opcode 10).\<close>

theorem header_roundtrip_witness:
  "ATTACH_USER_CONFIRM \<in> set domain_pdu_kinds \<and> (3 :: 8 word) < 4 \<and>
   writeMCSPDUHeader ATTACH_USER_CONFIRM 3 = [0x2F] \<and>
   readMCSPDUHeader 0x2F ATTACH_USER_CONFIRM \<and>
   unat (0x28 :: 8 word) div 4 \<noteq> unat ATTACH_USER_CONFIRM \<and>
   \<not> readMCSPDUHeader 0x28 ATTACH_USER_CONFIRM"
proof -
  have m: "ATTACH_USER_CONFIRM \<in> set domain_pdu_kinds"
    by (simp add: domain_pdu_kinds_def)
  have lt: "(3 :: 8 word) < 4" by simp
  have ne: "unat (0x28 :: 8 word) div 4 \<noteq> unat ATTACH_USER_CONFIRM"
    by (simp add: ATTACH_USER_CONFIRM_def)
  have e: "push_bit 2 (ucast ATTACH_USER_CONFIRM) OR 3 = (0x2F :: 8 word)"
    by (simp add: ATTACH_USER_CONFIRM_def)
  note h = header_roundtrip [OF m]
  from h lt have w: "writeMCSPDUHeader ATTACH_USER_CONFIRM 3 =
      [push_bit 2 (ucast ATTACH_USER_CONFIRM) OR 3]"
    and r: "readMCSPDUHeader (push_bit 2 (ucast ATTACH_USER_CONFIRM) OR 3) ATTACH_USER_CONFIRM"
    by blast+
  from h ne have n: "\<not> readMCSPDUHeader 0x28 ATTACH_USER_CONFIRM" by blast
  from m lt ne n w r show ?thesis by (simp only: e simp_thms)
qed

subsection \<open>The encoders\<close>

text \<open>
  Claim C8. For every DomainParameters value, its BER serialization is the sequence of
  eight BER integers maxChannelIds, maxUserIds, maxTokenIds, 1, 0, 1, maxMCSPDUSize, 2:
  positions 4, 5, 6 and 8 are the constants 1, 0, 1, 2 whatever numPriorities,
  minThroughput, maxHeight and protocolVersion the caller supplied.
\<close>

theorem DomainParameters_BER_sequence:
  "DomainParameters_BER b d =
     concat (map (ber_WriteInteger b)
       [MaxChannelIds d, MaxUserIds d, MaxTokenIds d, 1, 0, 1, MaxMCSPDUsize d, 2])
   \<and> DomainParameters_BER b
       (NewDomainParameters maxChannelIds maxUserIds maxTokenIds numPriorities minThoughput
          maxHeight maxMCSPDUsize protocolVersion) =
     concat (map (ber_WriteInteger b)
       [maxChannelIds, maxUserIds, maxTokenIds, 1, 0, 1, maxMCSPDUsize, 2])
   \<and> DomainParameters_BER b
       (d\<lparr>NumPriorities := numPriorities, MinThoughput := minThoughput,
          MaxHeight := maxHeight, ProtocolVersion := protocolVersion\<rparr>) =
     DomainParameters_BER b d"
  by (simp add: DomainParameters_BER_def NewDomainParameters_def)

lemma written_connect:
  "written (connect k p c) =
     written c @
       [ber_WriteApplicationTag (ber k) MCS_TYPE_CONNECT_INITIAL
          (int (length (ConnectInitial_BER (ber k) (NewConnectInitial
             (MakeConferenceCreateRequest k
               (ClientCoreData_Block k p @ ClientNetworkData_Block k @
                ClientSecurityData_Block k)))))) @
        ConnectInitial_BER (ber k) (NewConnectInitial
          (MakeConferenceCreateRequest k
            (ClientCoreData_Block k p @ ClientNetworkData_Block k @
             ClientSecurityData_Block k)))]"
  by (simp add: connect_def Let_def transport_Write_def Emit_def transport_Once_data_def
      split: option.split)

text \<open>
  Claim C7. For every user-data payload \<open>ud\<close>, the body encoded for the ConnectInitial
  built by \<open>NewConnectInitial\<close> (both selectors 0x01, upward flag true) is, in order:
  octet-string(calling selector), octet-string(called selector), boolean(upward flag), the
  three wrapped DomainParameters encodings, each the eight BER integers of its triple
  (target 34, 2, 0, 1, 0, 1, 65535, 2; minimum 1, 1, 1, 1, 0, 1, 1056, 2; maximum 65535,
  64535, 65535, 1, 0, 1, 65535, 2), and octet-string(user data); and the buffer that
  \<open>connect\<close> writes to the transport is the application tag 0x65, given the exact length
  of that body, followed by the body. (The BER writers are the collaborators' own: the
  theorem holds for all of them.)
\<close>

theorem ConnectInitial_encoding:
  "ConnectInitial_BER b (NewConnectInitial ud) =
     ber_WriteOctetstring b [0x01] @
     ber_WriteOctetstring b [0x01] @
     ber_WriteBoolean b True @
     ber_WriteEncodedDomainParams b
       (concat (map (ber_WriteInteger b) [34, 2, 0, 1, 0, 1, 0xffff, 2])) @
     ber_WriteEncodedDomainParams b
       (concat (map (ber_WriteInteger b) [1, 1, 1, 1, 0, 1, 0x420, 2])) @
     ber_WriteEncodedDomainParams b
       (concat (map (ber_WriteInteger b) [0xffff, 0xfc17, 0xffff, 1, 0, 1, 0xffff, 2])) @
     ber_WriteOctetstring b ud
   \<and> (\<exists>ccReq body.
        ccReq = MakeConferenceCreateRequest k
                  (ClientCoreData_Block k p @ ClientNetworkData_Block k @
                   ClientSecurityData_Block k) \<and>
        body =
          ber_WriteOctetstring (ber k) [0x01] @
          ber_WriteOctetstring (ber k) [0x01] @
          ber_WriteBoolean (ber k) True @
          ber_WriteEncodedDomainParams (ber k)
            (concat (map (ber_WriteInteger (ber k)) [34, 2, 0, 1, 0, 1, 0xffff, 2])) @
          ber_WriteEncodedDomainParams (ber k)
            (concat (map (ber_WriteInteger (ber k)) [1, 1, 1, 1, 0, 1, 0x420, 2])) @
          ber_WriteEncodedDomainParams (ber k)
            (concat (map (ber_WriteInteger (ber k))
               [0xffff, 0xfc17, 0xffff, 1, 0, 1, 0xffff, 2])) @
          ber_WriteOctetstring (ber k) ccReq \<and>
        written (connect k p c) =
          written c @ [ber_WriteApplicationTag (ber k) 0x65 (int (length body)) @ body])"
  by (simp add: ConnectInitial_BER_def NewConnectInitial_def DomainParameters_BER_def
      NewDomainParameters_def written_connect MCS_TYPE_CONNECT_INITIAL_def)


subsection \<open>The Attach User Confirm\<close>

lemma readMCSPDUHeader_iff:
  assumes "op \<in> set domain_pdu_kinds"
  shows "readMCSPDUHeader b op \<longleftrightarrow> unat b div 4 = unat op"
proof
  assume "readMCSPDUHeader b op"
  then have "unat (drop_bit 2 b) = unat (ucast op :: 8 word)"
    by (simp add: readMCSPDUHeader_def)
  then show "unat b div 4 = unat op"
    by (simp only: unat_drop2 kinds_unat_ucast [OF assms])
next
  assume "unat b div 4 = unat op"
  then have "unat (drop_bit 2 b) = unat (ucast op :: 8 word)"
    by (simp only: unat_drop2 kinds_unat_ucast [OF assms])
  then show "readMCSPDUHeader b op"
    by (simp only: readMCSPDUHeader_def word_unat_eq_iff)
qed

lemma attach_confirm_header:
  "readMCSPDUHeader h ATTACH_USER_CONFIRM \<longleftrightarrow> unat h div 4 = 11"
proof -
  have "ATTACH_USER_CONFIRM \<in> set domain_pdu_kinds" by (simp add: domain_pdu_kinds_def)
  from readMCSPDUHeader_iff [OF this] show ?thesis by (simp add: ATTACH_USER_CONFIRM_def)
qed

lemma connectChannels_keeps:
  "userId (session_of (connectChannels c)) = userId c"
  "channels (session_of (connectChannels c)) = channels c"
  by (simp_all add: connectChannels_def Let_def sendChannelJoinRequest_def
      transport_Once_data_def Emit_def transport_On_data_def)

lemma recvAttachUserConfirm_accept:
  assumes "unat h div 4 = 11"
  shows "recvAttachUserConfirm c (h # 0 # 0 # 5 # rest) =
           connectChannels (c\<lparr>userId := 1006,
                               channels := channels c @ [\<lparr>id_chan = 1006, name_chan = ''user''\<rparr>]\<rparr>)"
  using assms
  by (simp add: recvAttachUserConfirm_def attach_confirm_header MCS_USERCHANNEL_BASE_def)

text \<open>
  Claim C4. For every Attach User Confirm buffer with header opcode 11 (any option bits),
  enumerated result 0 and the 16-bit assigned id 5 (bytes 0x00 0x05), received by a
  session whose registry is the seeded one, processing the buffer records the user id
  1006 (= 5 + 1001) and leaves the registry equal to [{1003, "global"}, {1006, "user"}],
  in that order. When no channel has been joined yet the handler returns normally.
\<close>

theorem attach_user_confirm_registers_user_channel:
  assumes "unat h div 4 = 11"
    and "channels c = [\<lparr>id_chan = MCS_GLOBAL_CHANNEL, name_chan = ''global''\<rparr>]"
  shows "userId (session_of (recvAttachUserConfirm c (h # 0 # 0 # 5 # rest))) = 1006
       \<and> channels (session_of (recvAttachUserConfirm c (h # 0 # 0 # 5 # rest))) =
           [\<lparr>id_chan = 1003, name_chan = ''global''\<rparr>, \<lparr>id_chan = 1006, name_chan = ''user''\<rparr>]
       \<and> (channelsConnected c = 0 \<longrightarrow>
            (\<exists>c'. recvAttachUserConfirm c (h # 0 # 0 # 5 # rest) = Returns c'))"
  using assms(2)
  apply (simp only: recvAttachUserConfirm_accept [OF assms(1)] connectChannels_keeps)
  apply (simp add: MCS_GLOBAL_CHANNEL_def connectChannels_def Let_def)
  done

text \<open>The theorem at the fresh client and the buffer 2C 00 00 05.\<close>

theorem attach_user_confirm_registers_user_channel_witness:
  "unat (0x2C :: 8 word) div 4 = 11
   \<and> channels NewMCSClient = [\<lparr>id_chan = MCS_GLOBAL_CHANNEL, name_chan = ''global''\<rparr>]
   \<and> channelsConnected NewMCSClient = 0
   \<and> userId (session_of (recvAttachUserConfirm NewMCSClient [0x2C, 0, 0, 5])) = 1006
   \<and> channels (session_of (recvAttachUserConfirm NewMCSClient [0x2C, 0, 0, 5])) =
        [\<lparr>id_chan = 1003, name_chan = ''global''\<rparr>, \<lparr>id_chan = 1006, name_chan = ''user''\<rparr>]
   \<and> (\<exists>c'. recvAttachUserConfirm NewMCSClient [0x2C, 0, 0, 5] = Returns c')"
proof -
  have h: "unat (0x2C :: 8 word) div 4 = 11" by simp
  have g: "channels NewMCSClient = [\<lparr>id_chan = MCS_GLOBAL_CHANNEL, name_chan = ''global''\<rparr>]"
    by (simp add: NewMCSClient_simp)
  have z: "channelsConnected NewMCSClient = 0" by (simp add: NewMCSClient_simp)
  from attach_user_confirm_registers_user_channel [OF h g, of "[]"] h g z
  show ?thesis by blast
qed

text \<open>
  Claim C5. For every Attach User Confirm buffer whose first byte's top six bits differ
  from opcode 11, the session emits the bad-header error and changes nothing else; the
  bytes after the header are never read: the outcome is the same whatever follows the
  header byte.
\<close>

theorem attach_user_confirm_bad_header:
  assumes "unat h div 4 \<noteq> 11"
  shows "recvAttachUserConfirm c (h # rest) =
           Returns (c\<lparr>emitted := emitted c @ [Error_ev BAD_HEADER]\<rparr>)
       \<and> recvAttachUserConfirm c (h # rest) = recvAttachUserConfirm c (h # rest')"
  using assms by (simp add: recvAttachUserConfirm_def attach_confirm_header Emit_def)

text \<open>The theorem at the fresh client and the header byte 0x28 (opcode 10).\<close>

theorem attach_user_confirm_bad_header_witness:
  "unat (0x28 :: 8 word) div 4 \<noteq> 11
   \<and> recvAttachUserConfirm NewMCSClient [0x28, 0, 0, 5] =
       Returns (NewMCSClient\<lparr>emitted := [Error_ev BAD_HEADER]\<rparr>)
   \<and> recvAttachUserConfirm NewMCSClient [0x28, 0, 0, 5] =
       recvAttachUserConfirm NewMCSClient [0x28, 7]"
proof -
  have h: "unat (0x28 :: 8 word) div 4 \<noteq> 11" by simp
  have e: "emitted NewMCSClient @ [Error_ev BAD_HEADER] = [Error_ev BAD_HEADER]"
    by (simp add: NewMCSClient_simp)
  from attach_user_confirm_bad_header [OF h, of NewMCSClient "[0, 0, 5]" "[7]", unfolded e] h
  show ?thesis by blast
qed

subsection \<open>The Connect Response\<close>

lemmas session_defs = Emit_def transport_Write_def transport_Once_data_def
  transport_On_data_def sendChannelJoinRequest_def

text \<open>
  Claim C1 asks that decoding a ConnectResponse check the outer application tag 0x66 and
  the tags of the fields after it, and report a malformed response otherwise. The code
  at the stream 65 00 (outer tag 0x65) and at the empty stream: \<open>ReadConnectResponse\<close>
  succeeds with the default response and empty user data; it returns no error for any
  stream, and \<open>recvConnectResponse\<close> does the same for every buffer.
\<close>

theorem ReadConnectResponse_accepts_wrong_tag:
  "ReadConnectResponse [0x65, 0x00] = Inr (NewConnectResponse [])
   \<and> ReadConnectResponse [] = Inr (NewConnectResponse [])
   \<and> (\<forall>r. \<exists>cResp. ReadConnectResponse r = Inr cResp)
   \<and> recvConnectResponse k c [0x65, 0x00] = recvConnectResponse k c s"
  by (simp add: ReadConnectResponse_def recvConnectResponse_def)


text \<open>
  The default case of the type switch, reached by the first block that the decoder finds:
  one error is emitted, nothing is written and no field is set.
\<close>

lemma first_block_default:
  assumes "ReadConferenceCreateResponse k [] = v # vs"
    and "dyn_type v \<noteq> gcc_ServerSecurityData" and "dyn_type v \<noteq> gcc_ServerCoreData"
    and "dyn_type v \<noteq> gcc_ServerNetworkData"
  shows "recvConnectResponse k c s =
           Returns (c\<lparr>emitted := emitted c @ [Error_ev (UnhandledBlock v [])]\<rparr>)"
  using assms
  by (simp add: recvConnectResponse_def ReadConnectResponse_def NewConnectResponse_def Emit_def)

text \<open>
  Claim C6 asks that a ConnectResponse whose user data holds an unrecognised capability
  block yield exactly one unhandled-block error and no Erect Domain or Attach User
  request. The code never hands the received user data to the GCC decoder:
  \<open>ReadConnectResponse\<close> returns empty user data for every buffer, so the outcome of
  \<open>recvConnectResponse\<close> is the same for every buffer. With a decoder that finds no
  block in empty user data, every buffer, one carrying an unrecognised block included,
  leads to no error at all, and the Erect Domain Request and the Attach User Request are
  written.
\<close>

theorem unhandled_block_in_buffer_never_seen:
  assumes "ReadConferenceCreateResponse k [] = []"
  shows "recvConnectResponse k c s =
           Returns (c\<lparr>written := written c @
                        [[0x04] @ per_WriteInteger k 0 @ per_WriteInteger k 0, [0x28]],
                      onceData := onceData c @ [recvAttachUserConfirm_h]\<rparr>)
       \<and> emitted (session_of (recvConnectResponse k c s)) = emitted c
       \<and> recvConnectResponse k c s = recvConnectResponse k c s'"
  using assms
  by (simp add: recvConnectResponse_def ReadConnectResponse_def NewConnectResponse_def
      sendErectDomainRequest_def sendAttachUserRequest_def session_defs
      writeMCSPDUHeader_def WriteUInt8_def ERECT_DOMAIN_REQUEST_def ATTACH_USER_REQUEST_def)

text \<open>
  The theorem at a decoder that reports a block of unknown type for every non-empty user
  data, and at a buffer with the outer tag 0x66 whose user data is the single byte 0x99.
\<close>

theorem unhandled_block_in_buffer_never_seen_witness:
  "(let K = \<lparr>ber = \<lparr>ber_WriteInteger = (\<lambda>n. [0x02]),
                     ber_WriteOctetstring = (\<lambda>x. 0x04 # x),
                     ber_WriteBoolean = (\<lambda>x. [0x01]),
                     ber_WriteEncodedDomainParams = (\<lambda>x. 0x30 # x),
                     ber_WriteApplicationTag = (\<lambda>t n. [t])\<rparr>,
             per_WriteInteger = (\<lambda>n. [0x01, 0x00]),
             ClientCoreData_Block = (\<lambda>p. []),
             ClientNetworkData_Block = [],
             ClientSecurityData_Block = [],
             MakeConferenceCreateRequest = (\<lambda>x. x),
             ReadConferenceCreateResponse =
               (\<lambda>ud. case ud of [] \<Rightarrow> [] | t # r \<Rightarrow> [Iface (OtherType (unat t)) 0]),
             Write_error = (\<lambda>x. None)\<rparr>
    in ReadConferenceCreateResponse K [] = []
     \<and> ReadConferenceCreateResponse K [0x99] = [Iface (OtherType 0x99) 0]
     \<and> recvConnectResponse K NewMCSClient [0x66, 0x03, 0x04, 0x01, 0x99] =
         Returns (NewMCSClient\<lparr>written := [[0x04, 0x01, 0x00, 0x01, 0x00], [0x28]],
                               onceData := [recvAttachUserConfirm_h]\<rparr>)
     \<and> emitted (session_of (recvConnectResponse K NewMCSClient [0x66, 0x03, 0x04, 0x01, 0x99])) = [])"
proof -
  define K where "K = \<lparr>ber = \<lparr>ber_WriteInteger = (\<lambda>n::int. [0x02 :: 8 word]),
                     ber_WriteOctetstring = (\<lambda>x. 0x04 # x),
                     ber_WriteBoolean = (\<lambda>x. [0x01]),
                     ber_WriteEncodedDomainParams = (\<lambda>x. 0x30 # x),
                     ber_WriteApplicationTag = (\<lambda>t n. [t])\<rparr>,
             per_WriteInteger = (\<lambda>n. [0x01, 0x00]),
             ClientCoreData_Block = (\<lambda>p. []),
             ClientNetworkData_Block = [],
             ClientSecurityData_Block = [],
             MakeConferenceCreateRequest = (\<lambda>x. x),
             ReadConferenceCreateResponse =
               (\<lambda>ud. case ud of [] \<Rightarrow> [] | t # r \<Rightarrow> [Iface (OtherType (unat t)) 0]),
             Write_error = (\<lambda>x. None)\<rparr>"
  have e: "ReadConferenceCreateResponse K [] = []" by (simp add: K_def)
  have f: "ReadConferenceCreateResponse K [0x99] = [Iface (OtherType 0x99) 0]"
    by (simp add: K_def)
  have p: "per_WriteInteger K 0 = [0x01, 0x00]" by (simp add: K_def)
  have n: "written NewMCSClient = []" "onceData NewMCSClient = []" "emitted NewMCSClient = []"
    by (simp_all add: NewMCSClient_simp)
  from unhandled_block_in_buffer_never_seen [OF e, of NewMCSClient "[0x66, 0x03, 0x04, 0x01, 0x99]"] e f
  have "ReadConferenceCreateResponse K [] = []
     \<and> ReadConferenceCreateResponse K [0x99] = [Iface (OtherType 0x99) 0]
     \<and> recvConnectResponse K NewMCSClient [0x66, 0x03, 0x04, 0x01, 0x99] =
         Returns (NewMCSClient\<lparr>written := [[0x04, 0x01, 0x00, 0x01, 0x00], [0x28]],
                               onceData := [recvAttachUserConfirm_h]\<rparr>)
     \<and> emitted (session_of (recvConnectResponse K NewMCSClient [0x66, 0x03, 0x04, 0x01, 0x99])) = []"
    by (simp add: p n)
  then show ?thesis unfolding K_def Let_def .
qed


subsection \<open>Joining the channels\<close>

text \<open>
  Claim C3 asks that a Channel Join Confirm echoing another channel id than the one
  requested yield a ChannelJoinMismatch error and stop the joins. The code after the
  Attach User Confirm 2C 00 00 05 (the request for channel 1003 is the latest), at the
  confirm 3C 03 EE 03 EC (channel 1004): no error is emitted, the join count goes to 2
  and the next confirm is awaited; \<open>recvChannelJoinConfirm\<close> never looks at its buffer.
\<close>

theorem join_confirm_mismatch_ignored:
  "recvAttachUserConfirm NewMCSClient [0x2C, 0, 0, 5] =
     Returns (NewMCSClient
       \<lparr>channels := [\<lparr>id_chan = 1003, name_chan = ''global''\<rparr>,
                     \<lparr>id_chan = 1006, name_chan = ''user''\<rparr>],
        onceData := [recvChannelJoinConfirm_h], channelsConnected := 1, userId := 1006\<rparr>)
   \<and> recvChannelJoinConfirm
       (NewMCSClient
         \<lparr>channels := [\<lparr>id_chan = 1003, name_chan = ''global''\<rparr>,
                       \<lparr>id_chan = 1006, name_chan = ''user''\<rparr>],
          onceData := [], channelsConnected := 1, userId := 1006\<rparr>)
       [0x3C, 0x03, 0xEE, 0x03, 0xEC] =
     Returns (NewMCSClient
       \<lparr>channels := [\<lparr>id_chan = 1003, name_chan = ''global''\<rparr>,
                     \<lparr>id_chan = 1006, name_chan = ''user''\<rparr>],
        onceData := [recvChannelJoinConfirm_h], channelsConnected := 2, userId := 1006\<rparr>)
   \<and> emitted NewMCSClient = []
   \<and> recvChannelJoinConfirm c s = connectChannels c"
  by (simp add: recvAttachUserConfirm_accept recvChannelJoinConfirm_def connectChannels_def
      Let_def session_defs NewMCSClient_simp MCS_GLOBAL_CHANNEL_def)


text \<open>
  Claim C10 asks that the index \<^verbatim>\<open>channelsConnected\<close> be below the registry length in
  every call of \<open>connectChannels\<close>. The code on the Attach User Confirm 2C 00 00 05
  followed by two join confirms (any bytes): the third call of \<open>connectChannels\<close> has
  \<^verbatim>\<open>channelsConnected = 2 = len(channels)\<close>, emits "connect" and then reads
  \<^verbatim>\<open>channels[2]\<close>: index out of range. The same holds in every session whose join count
  equals its registry length.
\<close>

theorem connectChannels_reads_past_registry:
  "deliver k [[0x2C, 0, 0, 5], conf1, conf2]
       (NewMCSClient\<lparr>onceData := [recvAttachUserConfirm_h]\<rparr>) =
     Panics (IndexOutOfRange 2 2)
       (NewMCSClient
         \<lparr>channels := [\<lparr>id_chan = 1003, name_chan = ''global''\<rparr>,
                       \<lparr>id_chan = 1006, name_chan = ''user''\<rparr>],
          emitted := [Connect_ev 1006 [\<lparr>id_chan = 1003, name_chan = ''global''\<rparr>,
                                       \<lparr>id_chan = 1006, name_chan = ''user''\<rparr>]],
          onData := 1, channelsConnected := 2, userId := 1006\<rparr>)
   \<and> connectChannels (c\<lparr>channelsConnected := int (length (channels c))\<rparr>) =
     Panics (IndexOutOfRange (int (length (channels c))) (int (length (channels c))))
       (c\<lparr>emitted := emitted c @ [Connect_ev (userId c) (channels c)],
          onData := onData c + 1,
          channelsConnected := int (length (channels c))\<rparr>)"
  by (simp add: on_data_def recvAttachUserConfirm_accept recvChannelJoinConfirm_def
      connectChannels_def Let_def session_defs NewMCSClient_simp MCS_GLOBAL_CHANNEL_def)


text \<open>
  Claim C2 asks that the run Connect Initial, Connect Response, Erect Domain, Attach
  User (id 5, result 0), join and confirm 1003, join and confirm 1006 show exactly two
  channel-join request writes and end with one "connected" notification. The code on
  that run (the write succeeds, the GCC decoder finds no block in the empty user data;
  any bytes as Connect Response and as the two confirms): the transport sees three
  writes, the Connect Initial, the Erect Domain Request and the Attach User Request, and
  no join request; after the second confirm "connect" is emitted with user id 1006 and
  the two channels, and the handler panics on \<^verbatim>\<open>channels[2]\<close>.
\<close>

theorem session_run_sends_no_join_request:
  "deliver (k\<lparr>ReadConferenceCreateResponse := \<lambda>ud. [], Write_error := \<lambda>b. None\<rparr>)
       [resp, [0x2C, 0, 0, 5], conf1, conf2]
       (connect (k\<lparr>ReadConferenceCreateResponse := \<lambda>ud. [], Write_error := \<lambda>b. None\<rparr>)
          p NewMCSClient) =
     Panics (IndexOutOfRange 2 2)
       (NewMCSClient
         \<lparr>channels := [\<lparr>id_chan = 1003, name_chan = ''global''\<rparr>,
                       \<lparr>id_chan = 1006, name_chan = ''user''\<rparr>],
          written :=
            [ber_WriteApplicationTag (ber k) 0x65
               (int (length (ConnectInitial_BER (ber k) (NewConnectInitial
                  (MakeConferenceCreateRequest k
                     (ClientCoreData_Block k p @ ClientNetworkData_Block k @
                      ClientSecurityData_Block k)))))) @
             ConnectInitial_BER (ber k) (NewConnectInitial
               (MakeConferenceCreateRequest k
                  (ClientCoreData_Block k p @ ClientNetworkData_Block k @
                   ClientSecurityData_Block k))),
             [0x04] @ per_WriteInteger k 0 @ per_WriteInteger k 0,
             [0x28]],
          emitted := [Connect_ev 1006 [\<lparr>id_chan = 1003, name_chan = ''global''\<rparr>,
                                       \<lparr>id_chan = 1006, name_chan = ''user''\<rparr>]],
          onData := 1, ServerSelectedProtocol := p, channelsConnected := 2, userId := 1006\<rparr>)"
  by (simp add: connect_def on_data_def recvConnectResponse_def ReadConnectResponse_def
      NewConnectResponse_def sendErectDomainRequest_def sendAttachUserRequest_def
      writeMCSPDUHeader_def WriteUInt8_def ERECT_DOMAIN_REQUEST_def ATTACH_USER_REQUEST_def
      MCS_TYPE_CONNECT_INITIAL_def
      recvAttachUserConfirm_accept recvChannelJoinConfirm_def
      connectChannels_def Let_def session_defs NewMCSClient_simp MCS_GLOBAL_CHANNEL_def)


end
